theory Spec2Isabelle
  imports Main
begin

section \<open>JavaScript values and thrown errors\<close>

text \<open>
  The values a \<^verbatim>\<open>catch\<close> clause or an \<^verbatim>\<open>any\<close>-typed parameter can hold, as far as the
  code inspects them: primitives, arrays and plain objects (own properties in order of
  definition). HTTP status codes are integers, so numbers are modelled by \<open>int\<close>.
\<close>

datatype jsval =
    JUndefined
  | JNull
  | JBool bool
  | JNum int
  | JStr string
  | JArr "jsval list"
  | JObj "(string \<times> jsval) list"

text \<open>
  \<^verbatim>\<open>v?.name\<close> for the property names the code reads (\<^verbatim>\<open>response\<close>, \<^verbatim>\<open>status\<close>,
  \<^verbatim>\<open>data\<close>, \<^verbatim>\<open>error\<close>, \<^verbatim>\<open>errors\<close>, \<^verbatim>\<open>reason\<close>, ...): \<^verbatim>\<open>undefined\<close> on
  \<^verbatim>\<open>null\<close>/\<^verbatim>\<open>undefined\<close>, the own property of an object, and \<^verbatim>\<open>undefined\<close> on primitives
  and arrays, whose prototypes define none of these names.
\<close>

fun js_prop :: "jsval \<Rightarrow> string \<Rightarrow> jsval" where
  "js_prop (JObj fs) k = (case map_of fs k of Some v \<Rightarrow> v | None \<Rightarrow> JUndefined)"
| "js_prop _ k = JUndefined"

text \<open>\<^verbatim>\<open>v?.[0]\<close>: the first element of an array, the first character of a string, the
  property \<^verbatim>\<open>"0"\<close> of an object, \<^verbatim>\<open>undefined\<close> otherwise.\<close>

fun js_elem0 :: "jsval \<Rightarrow> jsval" where
  "js_elem0 (JArr xs) = (case xs of [] \<Rightarrow> JUndefined | x # _ \<Rightarrow> x)"
| "js_elem0 (JStr s) = (case s of [] \<Rightarrow> JUndefined | c # _ \<Rightarrow> JStr [c])"
| "js_elem0 (JObj fs) = (case map_of fs ''0'' of Some v \<Rightarrow> v | None \<Rightarrow> JUndefined)"
| "js_elem0 _ = JUndefined"

section \<open>Error classes (middleware/errorHandler.ts)\<close>

text \<open>The source is \<^verbatim>\<open>src/unnamed/part_008\<close>, lines 3 to 28.\<close>

text \<open>\<^verbatim>\<open>class ApiError extends Error\<close> with its constructor
  \<^verbatim>\<open>(statusCode, message, isOperational = true)\<close>.\<close>

record ApiError =
  statusCode :: int
  message :: string
  isOperational :: bool

definition new_ApiError :: "int \<Rightarrow> string \<Rightarrow> ApiError" where
  "new_ApiError code msg = \<lparr>statusCode = code, message = msg, isOperational = True\<rparr>"

text \<open>\<^verbatim>\<open>handleYouTubeQuotaError(error: any): ApiError\<close>.\<close>

definition handleYouTubeQuotaError :: "jsval \<Rightarrow> ApiError" where
  "handleYouTubeQuotaError error =
     (if js_prop (js_prop error ''response'') ''status'' = JNum 403 then
        (let reason =
               js_prop (js_elem0 (js_prop (js_prop (js_prop (js_prop error ''response'')
                 ''data'') ''error'') ''errors'')) ''reason''
         in if reason = JStr ''quotaExceeded'' then
              new_ApiError 429 ''YouTube API quota exceeded. Please try again later.''
            else if reason = JStr ''forbidden'' then
              new_ApiError 403 ''You do not have permission to perform this action.''
            else new_ApiError 500 ''An error occurred with the YouTube API'')
      else new_ApiError 500 ''An error occurred with the YouTube API'')"

text \<open>The provider error a failed googleapis call throws: an object whose
  \<^verbatim>\<open>response\<close> carries the HTTP status and the structured reason codes.\<close>

definition provider_error :: "int \<Rightarrow> string list \<Rightarrow> jsval" where
  "provider_error status reasons =
     JObj [(''message'', JStr ''Request failed''),
           (''response'', JObj [(''status'', JNum status),
              (''data'', JObj [(''error'', JObj [(''code'', JNum status),
                 (''errors'', JArr (map (\<lambda>r. JObj [(''reason'', JStr r)]) reasons))])])])]"

text \<open>The status and first reason code the classifier reads from its argument.\<close>

definition error_status :: "jsval \<Rightarrow> jsval" where
  "error_status error = js_prop (js_prop error ''response'') ''status''"

definition error_reason :: "jsval \<Rightarrow> jsval" where
  "error_reason error =
     js_prop (js_elem0 (js_prop (js_prop (js_prop (js_prop error ''response'')
       ''data'') ''error'') ''errors'')) ''reason''"

text \<open>\<^verbatim>\<open>string | null | undefined\<close> fields of provider responses and credentials.\<close>

datatype 'a js_opt = Undefined | Null | Val 'a

text \<open>Values a \<^verbatim>\<open>throw\<close> can raise in this code base. \<open>Error\<close> is a plain
  \<^verbatim>\<open>new Error(message)\<close>; \<open>JsonWebTokenError\<close> and \<open>TokenExpiredError\<close> are the classes of
  the jsonwebtoken package; \<open>CryptoError\<close> is whatever node:crypto throws; \<open>PrismaError\<close>
  is a failed database call; \<open>ProviderError\<close> is the error object a failed googleapis or
  google-auth-library request throws, seen through its properties.\<close>

datatype js_error =
    Error string
  | ApiErr ApiError
  | JsonWebTokenError string
  | TokenExpiredError string
  | CryptoError
  | PrismaError string
  | ProviderError jsval

text \<open>The properties of a thrown value that \<^verbatim>\<open>error?.response\<close> and the like can read.\<close>

fun thrown_value :: "js_error \<Rightarrow> jsval" where
  "thrown_value (Error m) = JObj [(''message'', JStr m)]"
| "thrown_value (ApiErr a) =
     JObj [(''message'', JStr (message a)), (''statusCode'', JNum (statusCode a)),
           (''isOperational'', JBool (isOperational a))]"
| "thrown_value (JsonWebTokenError m) =
     JObj [(''name'', JStr ''JsonWebTokenError''), (''message'', JStr m)]"
| "thrown_value (TokenExpiredError m) =
     JObj [(''name'', JStr ''TokenExpiredError''), (''message'', JStr m)]"
| "thrown_value CryptoError = JObj []"
| "thrown_value (PrismaError c) =
     JObj [(''name'', JStr ''PrismaClientKnownRequestError''), (''code'', JStr c)]"
| "thrown_value (ProviderError v) = v"

section \<open>Encryption codec (utils/encryption.ts)\<close>

text \<open>The source is \<^verbatim>\<open>src/backend/src/utils/encryption.ts\<close>, lines 1 to 55.\<close>

text \<open>
  Strings are modelled by their UTF-8 bytes (\<open>string\<close> is a list of 8-bit characters),
  and a \<^verbatim>\<open>Buffer\<close> is a list of bytes too, so encoding a well-formed string as
  \<^verbatim>\<open>'utf8'\<close> and decoding it again are the identity. \<^verbatim>\<open>key.length\<close> counts the characters
  of an ASCII key.
\<close>

definition ALGORITHM :: string where
  "ALGORITHM = ''aes-256-gcm''"

definition IV_LENGTH :: nat where
  "IV_LENGTH = 16"

definition AUTH_TAG_LENGTH :: nat where
  "AUTH_TAG_LENGTH = 16"

text \<open>\<^verbatim>\<open>buf.toString('hex')\<close>: two lower-case digits per byte.\<close>

definition hex_digit :: "nat \<Rightarrow> char" where
  "hex_digit n = ''0123456789abcdef'' ! n"

definition to_hex :: "string \<Rightarrow> string" where
  "to_hex buf = concat (map (\<lambda>c. [hex_digit (of_char c div 16), hex_digit (of_char c mod 16)]) buf)"

text \<open>\<^verbatim>\<open>Buffer.from(s, 'hex')\<close>: digits of either case, read in pairs; decoding stops at
  the first pair that is not two hex digits, and a trailing single character is dropped.\<close>

definition hex_val :: "char \<Rightarrow> nat option" where
  "hex_val c =
     (let n = (of_char c :: nat) in
      if 48 \<le> n \<and> n \<le> 57 then Some (n - 48)
      else if 97 \<le> n \<and> n \<le> 102 then Some (n - 87)
      else if 65 \<le> n \<and> n \<le> 70 then Some (n - 55)
      else None)"

fun from_hex :: "string \<Rightarrow> string" where
  "from_hex (a # b # rest) =
     (case (hex_val a, hex_val b) of
        (Some h, Some l) \<Rightarrow> char_of (16 * h + l) # from_hex rest
      | _ \<Rightarrow> [])"
| "from_hex _ = []"

text \<open>\<^verbatim>\<open>s.split(':')\<close>: the segments between colons; the empty string gives one empty
  segment.\<close>

fun split_colon :: "string \<Rightarrow> string list" where
  "split_colon [] = [[]]"
| "split_colon (c # cs) =
     (if c = CHR '':'' then [] # split_colon cs
      else (case split_colon cs of p # ps \<Rightarrow> (c # p) # ps | [] \<Rightarrow> [[c]]))"

text \<open>
  The node:crypto calls on the cipher \<open>ALGORITHM\<close> are a parameter: \<open>gcm_seal key iv text\<close>
  is \<^verbatim>\<open>createCipheriv\<close>, \<^verbatim>\<open>update\<close>, \<^verbatim>\<open>final\<close> and \<^verbatim>\<open>getAuthTag\<close> (ciphertext and tag, or
  \<open>None\<close> when one of them throws, as on a key that is not 32 bytes); \<open>gcm_open key iv tag
  data\<close> is \<^verbatim>\<open>createDecipheriv\<close>, \<^verbatim>\<open>setAuthTag\<close>, \<^verbatim>\<open>update\<close> and \<^verbatim>\<open>final\<close> (the plaintext,
  or \<open>None\<close> when one of them throws, as on a tag that does not authenticate).
  \<open>entropy\<close> is the byte stream behind \<^verbatim>\<open>crypto.randomBytes\<close>.
\<close>

record crypto =
  gcm_seal :: "string \<Rightarrow> string \<Rightarrow> string \<Rightarrow> (string \<times> string) option"
  gcm_open :: "string \<Rightarrow> string \<Rightarrow> string \<Rightarrow> string \<Rightarrow> string option"
  entropy :: "nat \<Rightarrow> char"

text \<open>\<^verbatim>\<open>crypto.randomBytes(n)\<close> after \<open>drawn\<close> bytes have been consumed.\<close>

definition randomBytes :: "crypto \<Rightarrow> nat \<Rightarrow> nat \<Rightarrow> string" where
  "randomBytes lib drawn n = map (entropy lib) [drawn ..< drawn + n]"

definition key_error :: js_error where
  "key_error = Error ''ENCRYPTION_KEY must be a 64-character hex string (32 bytes)''"

text \<open>\<^verbatim>\<open>!key || key.length !== 64\<close> on \<^verbatim>\<open>process.env.ENCRYPTION_KEY\<close>.\<close>

definition bad_key :: "string option \<Rightarrow> bool" where
  "bad_key key = (case key of None \<Rightarrow> True | Some k \<Rightarrow> k = [] \<or> length k \<noteq> 64)"

text \<open>\<^verbatim>\<open>encrypt(text)\<close>, with the environment's key and the \<open>iv\<close> that
  \<^verbatim>\<open>crypto.randomBytes(IV_LENGTH)\<close> returned.\<close>

definition encrypt :: "crypto \<Rightarrow> string option \<Rightarrow> string \<Rightarrow> string \<Rightarrow> js_error + string" where
  "encrypt lib key iv text =
     (if bad_key key then Inl key_error
      else case gcm_seal lib (from_hex (the key)) iv text of
             None \<Rightarrow> Inl CryptoError
           | Some (encrypted, authTag) \<Rightarrow>
               Inr (to_hex iv @ '':'' @ to_hex authTag @ '':'' @ to_hex encrypted))"

text \<open>\<^verbatim>\<open>decrypt(encryptedText)\<close>. The destructuring takes the first three segments; a
  missing segment is \<^verbatim>\<open>undefined\<close> and, like an empty one, falsy.\<close>

definition decrypt :: "crypto \<Rightarrow> string option \<Rightarrow> string \<Rightarrow> js_error + string" where
  "decrypt lib key encryptedText =
     (if bad_key key then Inl key_error
      else case split_colon encryptedText of
             ivHex # authTagHex # encrypted # _ \<Rightarrow>
               if ivHex = [] \<or> authTagHex = [] \<or> encrypted = []
               then Inl (Error ''Invalid encrypted text format'')
               else (case gcm_open lib (from_hex (the key)) (from_hex ivHex)
                            (from_hex authTagHex) (from_hex encrypted) of
                       None \<Rightarrow> Inl CryptoError
                     | Some decrypted \<Rightarrow> Inr decrypted)
           | _ \<Rightarrow> Inl (Error ''Invalid encrypted text format''))"

text \<open>
  A stand-in for the cipher, used to evaluate the codec on concrete inputs: it reverses
  the text and takes as tag the first \<open>AUTH_TAG_LENGTH\<close> bytes of ciphertext, nonce and
  padding. It accepts 32-byte keys and non-empty nonces only.
\<close>

definition sample_tag :: "string \<Rightarrow> string \<Rightarrow> string" where
  "sample_tag iv data = take AUTH_TAG_LENGTH (data @ iv @ replicate AUTH_TAG_LENGTH (CHR ''t''))"

definition sample_crypto :: crypto where
  "sample_crypto =
     \<lparr>gcm_seal = (\<lambda>key iv text.
        if length key = 32 \<and> iv \<noteq> [] then Some (rev text, sample_tag iv (rev text)) else None),
      gcm_open = (\<lambda>key iv tag data.
        if length key = 32 \<and> iv \<noteq> [] \<and> tag = sample_tag iv data then Some (rev data) else None),
      entropy = (\<lambda>n. char_of (171 + n))\<rparr>"

definition sample_key :: "string option" where
  "sample_key = Some (concat (replicate 32 ''0f''))"


section \<open>Authentication service (services/auth.service.ts)\<close>

text \<open>The source is \<^verbatim>\<open>src/backend/src/services/auth.service.ts\<close>, lines 132 to 185.\<close>

text \<open>The row of the \<^verbatim>\<open>oAuthToken\<close> table, with the columns the service reads and writes;
  timestamps are milliseconds since the epoch (\<^verbatim>\<open>Date.getTime()\<close>).\<close>

record OAuthToken =
  accessToken :: string
  refreshToken :: string
  accessTokenExpiresAt :: int
  scope :: string

text \<open>The \<^verbatim>\<open>credentials\<close> a refresh exchange returns.\<close>

record Credentials =
  access_token :: "string js_opt"
  refresh_token :: "string js_opt"
  expiry_date :: "int js_opt"

text \<open>Truthiness of an optional string or number.\<close>

fun truthy_str :: "string js_opt \<Rightarrow> bool" where
  "truthy_str (Val s) = (s \<noteq> [])"
| "truthy_str _ = False"

fun truthy_num :: "int js_opt \<Rightarrow> bool" where
  "truthy_num (Val n) = (n \<noteq> 0)"
| "truthy_num _ = False"

fun the_val :: "'a js_opt \<Rightarrow> 'a" where
  "the_val (Val x) = x"
| "the_val _ = undefined"

text \<open>Calls to the provider, in the order they are issued: the refresh exchange of
  google-auth-library with the refresh token it sends, and the YouTube Data API calls the
  comment service makes, each with the access token of the client that issues it.\<close>

datatype api_call =
    RefreshAccessToken string
  | ChannelsList string
  | CommentThreadsList string string
  | CommentsList string string
  | CommentsDelete string string

text \<open>Everything a request can change or observe: the \<^verbatim>\<open>oAuthToken\<close> table keyed by user
  id, the clock behind \<^verbatim>\<open>new Date()\<close> and \<^verbatim>\<open>Date.now()\<close>, the number of random bytes drawn,
  the provider calls issued so far and the rows \<^verbatim>\<open>EventService.log\<close> has written (event
  type and user id).\<close>

record world =
  oAuthToken :: "string \<rightharpoonup> OAuthToken"
  clock :: int
  drawn :: nat
  calls :: "api_call list"
  eventLog :: "(string \<times> string) list"

text \<open>The token endpoint: its answer to a refresh exchange may depend on every call
  issued before it.\<close>

type_synonym token_endpoint = "api_call list \<Rightarrow> string \<Rightarrow> js_error + Credentials"

text \<open>\<^verbatim>\<open>oauth2Client.setCredentials({ refresh_token })\<close> followed by
  \<^verbatim>\<open>await oauth2Client.refreshAccessToken()\<close>: the exchange is recorded and answered.\<close>

definition exchange :: "token_endpoint \<Rightarrow> world \<Rightarrow> string \<Rightarrow> (js_error + Credentials) \<times> world" where
  "exchange endpoint w refresh_tok =
     (endpoint (calls w) refresh_tok, w\<lparr>calls := calls w @ [RefreshAccessToken refresh_tok]\<rparr>)"

text \<open>\<^verbatim>\<open>encrypt(text)\<close> as a step of a request: the key check comes first, then
  \<^verbatim>\<open>crypto.randomBytes(IV_LENGTH)\<close> draws the nonce.\<close>

definition encrypt_io :: "crypto \<Rightarrow> string option \<Rightarrow> world \<Rightarrow> string \<Rightarrow> (js_error + string) \<times> world" where
  "encrypt_io lib key w text =
     (if bad_key key then (Inl key_error, w)
      else (encrypt lib key (randomBytes lib (drawn w) IV_LENGTH) text,
            w\<lparr>drawn := drawn w + IV_LENGTH\<rparr>))"

text \<open>The \<^verbatim>\<open>data\<close> object of \<^verbatim>\<open>prisma.oAuthToken.update\<close>; \<open>data_refreshToken\<close> is
  \<open>None\<close> when the object has no \<^verbatim>\<open>refreshToken\<close> key.\<close>

record token_data =
  data_accessToken :: string
  data_accessTokenExpiresAt :: int
  data_refreshToken :: "string option"

definition apply_data :: "token_data \<Rightarrow> OAuthToken \<Rightarrow> OAuthToken" where
  "apply_data d row =
     row\<lparr>accessToken := data_accessToken d,
         accessTokenExpiresAt := data_accessTokenExpiresAt d,
         refreshToken := (case data_refreshToken d of None \<Rightarrow> refreshToken row | Some r \<Rightarrow> r)\<rparr>"

text \<open>\<^verbatim>\<open>prisma.oAuthToken.update({ where: { userId }, data })\<close>; it throws (code P2025)
  when the user has no row.\<close>

definition prisma_oAuthToken_update :: "world \<Rightarrow> string \<Rightarrow> token_data \<Rightarrow> js_error + world" where
  "prisma_oAuthToken_update w userId d =
     (case oAuthToken w userId of
        None \<Rightarrow> Inl (PrismaError ''P2025'')
      | Some row \<Rightarrow> Inr (w\<lparr>oAuthToken := fun_upd (oAuthToken w) userId (Some (apply_data d row))\<rparr>))"

text \<open>The \<^verbatim>\<open>...(credentials.refresh_token && { refreshToken: encrypt(...) })\<close> spread: no
  key when the refresh token is falsy, the encrypted new token otherwise.\<close>

definition refresh_spread ::
  "crypto \<Rightarrow> string option \<Rightarrow> world \<Rightarrow> Credentials \<Rightarrow> (js_error + string option) \<times> world" where
  "refresh_spread lib key w credentials =
     (if truthy_str (refresh_token credentials) then
        (case encrypt_io lib key w (the_val (refresh_token credentials)) of
           (Inl e, w') \<Rightarrow> (Inl e, w')
         | (Inr newRefresh, w') \<Rightarrow> (Inr (Some newRefresh), w'))
      else (Inr None, w))"

text \<open>The part of \<^verbatim>\<open>refreshAccessToken\<close> that runs once the exchange has answered: the
  check of the new access token, the \<^verbatim>\<open>data\<close> object with its properties evaluated in
  the order they are written, the update, and the return of the new access token.\<close>

definition store_refreshed ::
  "crypto \<Rightarrow> string option \<Rightarrow> world \<Rightarrow> string \<Rightarrow> js_error + Credentials \<Rightarrow> (js_error + string) \<times> world" where
  "store_refreshed lib key w userId response =
     (case response of
        Inl e \<Rightarrow> (Inl e, w)
      | Inr credentials \<Rightarrow>
          if \<not> truthy_str (access_token credentials)
          then (Inl (Error ''Failed to refresh access token''), w)
          else
            (case encrypt_io lib key w (the_val (access_token credentials)) of
               (Inl e, w1) \<Rightarrow> (Inl e, w1)
             | (Inr newAccess, w1) \<Rightarrow>
                 let expiresAt =
                       (if truthy_num (expiry_date credentials)
                        then the_val (expiry_date credentials)
                        else clock w1 + 3600000)
                 in (case refresh_spread lib key w1 credentials of
                       (Inl e, w2) \<Rightarrow> (Inl e, w2)
                     | (Inr newRefresh, w2) \<Rightarrow>
                         (case prisma_oAuthToken_update w2 userId
                                 \<lparr>data_accessToken = newAccess,
                                  data_accessTokenExpiresAt = expiresAt,
                                  data_refreshToken = newRefresh\<rparr> of
                            Inl e \<Rightarrow> (Inl e, w2)
                          | Inr w3 \<Rightarrow> (Inr (the_val (access_token credentials)), w3)))))"

text \<open>\<^verbatim>\<open>AuthService.refreshAccessToken(userId, encryptedRefreshToken)\<close>.\<close>

definition refreshAccessToken ::
  "crypto \<Rightarrow> string option \<Rightarrow> token_endpoint \<Rightarrow> world \<Rightarrow> string \<Rightarrow> string \<Rightarrow> (js_error + string) \<times> world" where
  "refreshAccessToken lib key endpoint w userId encryptedRefreshToken =
     (case decrypt lib key encryptedRefreshToken of
        Inl e \<Rightarrow> (Inl e, w)
      | Inr refresh_tok \<Rightarrow>
          (case exchange endpoint w refresh_tok of
             (response, w') \<Rightarrow> store_refreshed lib key w' userId response))"

text \<open>The expiry test of \<^verbatim>\<open>getValidAccessToken\<close>:
  \<^verbatim>\<open>expiresAt.getTime() - now.getTime() < 5 * 60 * 1000\<close>.\<close>

definition needs_refresh :: "OAuthToken \<Rightarrow> int \<Rightarrow> bool" where
  "needs_refresh tokenRecord now = (accessTokenExpiresAt tokenRecord - now < 5 * 60 * 1000)"

text \<open>\<^verbatim>\<open>AuthService.getValidAccessToken(userId)\<close>.\<close>

definition getValidAccessToken ::
  "crypto \<Rightarrow> string option \<Rightarrow> token_endpoint \<Rightarrow> world \<Rightarrow> string \<Rightarrow> (js_error + string) \<times> world" where
  "getValidAccessToken lib key endpoint w userId =
     (case oAuthToken w userId of
        None \<Rightarrow> (Inl (Error ''No OAuth token found for user''), w)
      | Some tokenRecord \<Rightarrow>
          if needs_refresh tokenRecord (clock w)
          then refreshAccessToken lib key endpoint w userId (refreshToken tokenRecord)
          else (decrypt lib key (accessToken tokenRecord), w))"

subsection \<open>Concurrent callers\<close>

text \<open>
  A call of \<open>getValidAccessToken\<close> suspends at each \<^verbatim>\<open>await\<close>; between two suspensions
  it runs without interruption. A caller is where its call stands: not yet answered by
  \<^verbatim>\<open>findUnique\<close>, holding the row it was answered with, holding the answer of its
  refresh exchange, or settled with its result.
\<close>

datatype caller =
    Start
  | Loaded "OAuthToken option"
  | Exchanged "js_error + Credentials"
  | Done "js_error + string"

text \<open>One resumption of a caller: the code between two \<^verbatim>\<open>await\<close>s of
  \<open>getValidAccessToken\<close> and \<open>refreshAccessToken\<close>, together with the database or provider
  call it ends in.\<close>

fun resume ::
  "crypto \<Rightarrow> string option \<Rightarrow> token_endpoint \<Rightarrow> string \<Rightarrow> world \<Rightarrow> caller \<Rightarrow> caller \<times> world" where
  "resume lib key endpoint userId w Start = (Loaded (oAuthToken w userId), w)"
| "resume lib key endpoint userId w (Loaded None) =
     (Done (Inl (Error ''No OAuth token found for user'')), w)"
| "resume lib key endpoint userId w (Loaded (Some tokenRecord)) =
     (if needs_refresh tokenRecord (clock w) then
        (case decrypt lib key (refreshToken tokenRecord) of
           Inl e \<Rightarrow> (Done (Inl e), w)
         | Inr refresh_tok \<Rightarrow>
             (case exchange endpoint w refresh_tok of (response, w') \<Rightarrow> (Exchanged response, w')))
      else (Done (decrypt lib key (accessToken tokenRecord)), w))"
| "resume lib key endpoint userId w (Exchanged response) =
     (case store_refreshed lib key w userId response of (result, w') \<Rightarrow> (Done result, w'))"
| "resume lib key endpoint userId w (Done result) = (Done result, w)"

text \<open>The event loop: a schedule names, step by step, the caller that resumes next and
  the time that has passed since the step before. All callers ask for the same user.\<close>

fun run ::
  "crypto \<Rightarrow> string option \<Rightarrow> token_endpoint \<Rightarrow> string \<Rightarrow> (nat \<times> nat) list \<Rightarrow>
     world \<times> caller list \<Rightarrow> world \<times> caller list" where
  "run lib key endpoint userId [] st = st"
| "run lib key endpoint userId ((i, dt) # schedule) (w, cs) =
     (let w0 = w\<lparr>clock := clock w + int dt\<rparr> in
      if i < length cs then
        (case resume lib key endpoint userId w0 (cs ! i) of
           (c', w') \<Rightarrow> run lib key endpoint userId schedule (w', cs[i := c']))
      else run lib key endpoint userId schedule (w0, cs))"




text \<open>A token endpoint for concrete runs: it numbers the access tokens it issues
  (\<^verbatim>\<open>A0\<close>, \<^verbatim>\<open>A1\<close>, ...) by the calls it has seen and answers with the given refresh
  token, if any.\<close>

definition sample_endpoint :: "string js_opt \<Rightarrow> token_endpoint" where
  "sample_endpoint rotated history refresh_tok =
     Inr \<lparr>access_token = Val (''A'' @ [''0123456789'' ! (length history mod 10)]),
          refresh_token = rotated,
          expiry_date = Undefined\<rparr>"

section \<open>Session tokens (middleware/auth.ts)\<close>

text \<open>The source is \<^verbatim>\<open>src/frontend/src/pages/AuthCallback.tsx\<close>, lines 89 to 192.\<close>

text \<open>The claims of a session token: the \<^verbatim>\<open>JwtPayload\<close> of the source and the
  \<^verbatim>\<open>iat\<close> and \<^verbatim>\<open>exp\<close> claims \<^verbatim>\<open>jwt.sign\<close> adds, in seconds.\<close>

record JwtPayload =
  userId :: string
  email :: string
  googleId :: string
  iat :: int
  exp :: "int option"

text \<open>A token string, by how it decodes: a header, payload and signature, or not a
  JWT at all (the empty string among these).\<close>

datatype session_token = Malformed string | Jwt JwtPayload string

text \<open>The jsonwebtoken package is used through \<^verbatim>\<open>jwt.sign\<close> and \<^verbatim>\<open>jwt.verify\<close>. Its
  keyed signature and its reading of an \<^verbatim>\<open>expiresIn\<close> time span (in seconds, \<open>None\<close> when
  it rejects the string) are parameters.\<close>

record jwt_lib =
  hmac :: "string \<Rightarrow> JwtPayload \<Rightarrow> string"
  timespan :: "string \<Rightarrow> int option"

text \<open>\<^verbatim>\<open>jwt.sign(payload, secret, { expiresIn })\<close> at the time \<open>now\<close> (milliseconds).\<close>

definition jwt_sign ::
  "jwt_lib \<Rightarrow> string \<Rightarrow> string \<Rightarrow> string \<Rightarrow> string \<Rightarrow> string \<Rightarrow> int \<Rightarrow> js_error + session_token" where
  "jwt_sign lib uid mail gid secret expiresIn now =
     (case timespan lib expiresIn of
        None \<Rightarrow>
          Inl (Error ([CHR 0x22] @ ''expiresIn'' @ [CHR 0x22] @
                 '' should be a number of seconds or string representing a timespan''))
      | Some seconds \<Rightarrow>
          (let payload = \<lparr>userId = uid, email = mail, googleId = gid,
                           iat = now div 1000, exp = Some (now div 1000 + seconds)\<rparr>
           in Inr (Jwt payload (hmac lib secret payload))))"

text \<open>\<^verbatim>\<open>jwt.verify(token, secret)\<close> at the time \<open>now\<close>: the signature is checked before
  the expiry.\<close>

definition jwt_verify :: "jwt_lib \<Rightarrow> session_token \<Rightarrow> string \<Rightarrow> int \<Rightarrow> js_error + JwtPayload" where
  "jwt_verify lib token secret now =
     (case token of
        Malformed s \<Rightarrow>
          Inl (JsonWebTokenError (if s = [] then ''jwt must be provided'' else ''jwt malformed''))
      | Jwt payload signature \<Rightarrow>
          if signature \<noteq> hmac lib secret payload then Inl (JsonWebTokenError ''invalid signature'')
          else (case exp payload of
                  Some e \<Rightarrow> if now div 1000 \<ge> e then Inl (TokenExpiredError ''jwt expired'')
                            else Inr payload
                | None \<Rightarrow> Inr payload))"

text \<open>\<^verbatim>\<open>error instanceof C\<close> for the classes the middleware tests. In jsonwebtoken,
  \<^verbatim>\<open>TokenExpiredError.prototype = Object.create(JsonWebTokenError.prototype)\<close>: an expired
  token's error is an instance of both classes.\<close>

fun instanceof_ApiError :: "js_error \<Rightarrow> bool" where
  "instanceof_ApiError (ApiErr _) = True"
| "instanceof_ApiError _ = False"

fun instanceof_JsonWebTokenError :: "js_error \<Rightarrow> bool" where
  "instanceof_JsonWebTokenError (JsonWebTokenError _) = True"
| "instanceof_JsonWebTokenError (TokenExpiredError _) = True"
| "instanceof_JsonWebTokenError _ = False"

fun instanceof_TokenExpiredError :: "js_error \<Rightarrow> bool" where
  "instanceof_TokenExpiredError (TokenExpiredError _) = True"
| "instanceof_TokenExpiredError _ = False"

text \<open>A row of the \<^verbatim>\<open>user\<close> table, with the columns the middleware copies to
  \<^verbatim>\<open>req.user\<close>.\<close>

record User =
  user_id :: string
  user_email :: string
  user_googleId :: string

text \<open>The request: its \<^verbatim>\<open>Authorization\<close> header, either \<^verbatim>\<open>Bearer\<close> followed by a token
  or something else, and \<^verbatim>\<open>req.cookies?.token\<close>.\<close>

datatype auth_header = Bearer session_token | OtherHeader string

record request =
  authorization :: "auth_header option"
  cookie_token :: "session_token option"

definition falsy_token :: "session_token option \<Rightarrow> bool" where
  "falsy_token t = (t = None \<or> t = Some (Malformed []))"

definition not_configured :: "string option \<Rightarrow> bool" where
  "not_configured v = (v = None \<or> v = Some [])"

text \<open>The \<^verbatim>\<open>try\<close> block of \<^verbatim>\<open>authenticate\<close>: the value is what \<^verbatim>\<open>req.user\<close> is set to
  before \<^verbatim>\<open>next()\<close>, or what is thrown.\<close>

definition authenticate_try ::
  "jwt_lib \<Rightarrow> string option \<Rightarrow> (string \<rightharpoonup> User) \<Rightarrow> int \<Rightarrow> request \<Rightarrow> js_error + User" where
  "authenticate_try lib JWT_SECRET users now req =
     (let token0 = (case authorization req of Some (Bearer t) \<Rightarrow> Some t | _ \<Rightarrow> None);
          token = (if falsy_token token0 \<and> \<not> falsy_token (cookie_token req)
                   then cookie_token req else token0)
      in if falsy_token token then Inl (ApiErr (new_ApiError 401 ''Authentication required''))
         else if not_configured JWT_SECRET then Inl (Error ''JWT_SECRET not configured'')
         else (case jwt_verify lib (the token) (the JWT_SECRET) now of
                 Inl e \<Rightarrow> Inl e
               | Inr decoded \<Rightarrow>
                   (case users (userId decoded) of
                      None \<Rightarrow> Inl (ApiErr (new_ApiError 401 ''User not found''))
                    | Some user \<Rightarrow> Inr user)))"

text \<open>\<^verbatim>\<open>authenticate\<close> with its \<^verbatim>\<open>catch\<close> block: \<open>Inl e\<close> is \<^verbatim>\<open>next(e)\<close>.\<close>

definition authenticate ::
  "jwt_lib \<Rightarrow> string option \<Rightarrow> (string \<rightharpoonup> User) \<Rightarrow> int \<Rightarrow> request \<Rightarrow> js_error + User" where
  "authenticate lib JWT_SECRET users now req =
     (case authenticate_try lib JWT_SECRET users now req of
        Inr user \<Rightarrow> Inr user
      | Inl error \<Rightarrow>
          if instanceof_ApiError error then Inl error
          else if instanceof_JsonWebTokenError error
          then Inl (ApiErr (new_ApiError 401 ''Invalid token''))
          else if instanceof_TokenExpiredError error
          then Inl (ApiErr (new_ApiError 401 ''Token expired''))
          else Inl error)"

text \<open>\<^verbatim>\<open>generateToken(user)\<close> at the time \<open>now\<close>, with \<^verbatim>\<open>process.env.JWT_SECRET\<close> and
  \<^verbatim>\<open>process.env.JWT_EXPIRES_IN\<close>.\<close>

definition generateToken ::
  "jwt_lib \<Rightarrow> string option \<Rightarrow> string option \<Rightarrow> int \<Rightarrow> User \<Rightarrow> js_error + session_token" where
  "generateToken lib JWT_SECRET JWT_EXPIRES_IN now user =
     (if not_configured JWT_SECRET then Inl (Error ''JWT_SECRET not configured'')
      else jwt_sign lib (user_id user) (user_email user) (user_googleId user) (the JWT_SECRET)
             (if not_configured JWT_EXPIRES_IN then ''7d'' else the JWT_EXPIRES_IN) now)"

text \<open>A stand-in for the package, used to evaluate the middleware on concrete tokens:
  the signature is the secret followed by the user id, and a time span is a number of
  days written \<^verbatim>\<open>7d\<close> or \<^verbatim>\<open>1d\<close>.\<close>

definition sample_jwt :: jwt_lib where
  "sample_jwt =
     \<lparr>hmac = (\<lambda>secret payload. secret @ ''.'' @ userId payload),
      timespan = (\<lambda>s. if s = ''7d'' then Some 604800 else if s = ''1d'' then Some 86400 else None)\<rparr>"

section \<open>Comment service (services/comment.service.ts)\<close>

text \<open>The source is \<^verbatim>\<open>src/frontend/src/components/VideoSelector.tsx\<close>, lines 76 to 337;
  \<^verbatim>\<open>EventService.log\<close> is in \<^verbatim>\<open>src/backend/src/routes/video.routes.ts\<close>, lines 72 to 96.\<close>

text \<open>
  The YouTube Data API responses, as the googleapis types give them: every property is
  optional. A property read only through \<^verbatim>\<open>?.\<close> is \<open>None\<close> when it is absent or
  \<^verbatim>\<open>null\<close>; a string or number that is compared or defaulted keeps the three cases.
\<close>

record Schema_Channel =
  raw_channel_id :: "string js_opt"

record Schema_ChannelListResponse =
  channel_items :: "Schema_Channel list option"

text \<open>\<open>raw_authorChannelId\<close> is the object \<^verbatim>\<open>authorChannelId\<close>, given by its
  \<^verbatim>\<open>value\<close> property.\<close>

record Schema_CommentSnippet =
  raw_authorChannelId :: "string js_opt option"
  raw_authorDisplayName :: "string js_opt"
  raw_authorProfileImageUrl :: "string js_opt"
  raw_textDisplay :: "string js_opt"
  raw_textOriginal :: "string js_opt"
  raw_likeCount :: "int js_opt"
  raw_publishedAt :: "string js_opt"
  raw_updatedAt :: "string js_opt"

record Schema_Comment =
  raw_comment_id :: "string js_opt"
  raw_snippet :: "Schema_CommentSnippet option"

record Schema_CommentThreadSnippet =
  raw_topLevelComment :: "Schema_Comment option"
  raw_totalReplyCount :: "int js_opt"

text \<open>\<open>raw_replies\<close> is the object \<^verbatim>\<open>replies\<close>, given by its \<^verbatim>\<open>comments\<close> property.\<close>

record Schema_CommentThread =
  raw_thread_id :: "string js_opt"
  raw_thread_snippet :: "Schema_CommentThreadSnippet option"
  raw_replies :: "Schema_Comment list option option"

record Schema_CommentThreadListResponse =
  thread_items :: "Schema_CommentThread list option"
  raw_nextPageToken :: "string js_opt"

record Schema_CommentListResponse =
  comment_items :: "Schema_Comment list option"

text \<open>The provider's resource API: each answer may depend on the calls issued before,
  on the access token of the client and on the arguments of the call.\<close>

record youtube_api =
  channels_list :: "api_call list \<Rightarrow> string \<Rightarrow> js_error + Schema_ChannelListResponse"
  commentThreads_list ::
    "api_call list \<Rightarrow> string \<Rightarrow> string \<Rightarrow> string option \<Rightarrow> int \<Rightarrow>
       js_error + Schema_CommentThreadListResponse"
  comments_list :: "api_call list \<Rightarrow> string \<Rightarrow> string \<Rightarrow> js_error + Schema_CommentListResponse"
  comments_delete :: "api_call list \<Rightarrow> string \<Rightarrow> string \<Rightarrow> js_error + unit"

text \<open>The service's own \<^verbatim>\<open>Comment\<close> and \<^verbatim>\<open>CommentThread\<close> (the optional \<^verbatim>\<open>replies\<close> of a
  \<^verbatim>\<open>Comment\<close> is never set by the functions below).\<close>

record Comment =
  comment_id :: string
  authorDisplayName :: string
  authorProfileImageUrl :: string
  authorChannelId :: string
  textDisplay :: string
  textOriginal :: string
  likeCount :: int
  publishedAt :: string
  updatedAt :: string
  canDelete :: bool

record CommentThread =
  thread_id :: string
  topLevelComment :: Comment
  totalReplyCount :: int
  replies :: "Comment list"

record CommentPage =
  comments :: "CommentThread list"
  nextPageToken :: "string option"
  userChannelId :: string

text \<open>\<^verbatim>\<open>x || d\<close> on an optional string or number.\<close>

definition str_or :: "string js_opt \<Rightarrow> string \<Rightarrow> string" where
  "str_or x d = (if truthy_str x then the_val x else d)"

definition num_or :: "int js_opt \<Rightarrow> int \<Rightarrow> int" where
  "num_or x d = (if truthy_num x then the_val x else d)"

text \<open>\<^verbatim>\<open>snippet?.p\<close> for a string or number property \<open>p\<close> of an optional snippet.\<close>

definition opt_field :: "('a \<Rightarrow> 'b js_opt) \<Rightarrow> 'a option \<Rightarrow> 'b js_opt" where
  "opt_field p x = (case x of None \<Rightarrow> Undefined | Some v \<Rightarrow> p v)"

text \<open>\<^verbatim>\<open>snippet?.authorChannelId?.value\<close>.\<close>

definition author_value :: "Schema_CommentSnippet option \<Rightarrow> string js_opt" where
  "author_value snippet =
     (case snippet of
        None \<Rightarrow> Undefined
      | Some sn \<Rightarrow> (case raw_authorChannelId sn of None \<Rightarrow> Undefined | Some v \<Rightarrow> v))"

text \<open>\<^verbatim>\<open>channelResponse.data.items?.[0]?.id\<close>.\<close>

definition first_channel_id :: "Schema_ChannelListResponse \<Rightarrow> string js_opt" where
  "first_channel_id r =
     (case channel_items r of
        None \<Rightarrow> Undefined
      | Some [] \<Rightarrow> Undefined
      | Some (c # _) \<Rightarrow> raw_channel_id c)"

text \<open>\<^verbatim>\<open>getClient(userId)\<close>: the client is the access token it carries.\<close>

definition getClient ::
  "crypto \<Rightarrow> string option \<Rightarrow> token_endpoint \<Rightarrow> world \<Rightarrow> string \<Rightarrow> (js_error + string) \<times> world" where
  "getClient lib key endpoint w uid = getValidAccessToken lib key endpoint w uid"

text \<open>The object \<^verbatim>\<open>getComments\<close> builds from a comment's id and snippet, for the top-level
  comment and for each reply alike.\<close>

definition to_Comment :: "string \<Rightarrow> string js_opt \<Rightarrow> Schema_CommentSnippet option \<Rightarrow> Comment" where
  "to_Comment channel cid snippet =
     \<lparr>comment_id = str_or cid [],
      authorDisplayName = str_or (opt_field raw_authorDisplayName snippet) ''Unknown'',
      authorProfileImageUrl = str_or (opt_field raw_authorProfileImageUrl snippet) [],
      authorChannelId = str_or (author_value snippet) [],
      textDisplay = str_or (opt_field raw_textDisplay snippet) [],
      textOriginal = str_or (opt_field raw_textOriginal snippet) [],
      likeCount = num_or (opt_field raw_likeCount snippet) 0,
      publishedAt = str_or (opt_field raw_publishedAt snippet) [],
      updatedAt = str_or (opt_field raw_updatedAt snippet) [],
      canDelete = (author_value snippet = Val channel)\<rparr>"

text \<open>The callback of \<^verbatim>\<open>response.data.items?.map(thread => ...)\<close>.\<close>

definition to_CommentThread :: "string \<Rightarrow> Schema_CommentThread \<Rightarrow> CommentThread" where
  "to_CommentThread channel thread =
     (let top = (case raw_thread_snippet thread of
                   None \<Rightarrow> None | Some ts \<Rightarrow> raw_topLevelComment ts);
          topComment = (case top of None \<Rightarrow> None | Some c \<Rightarrow> raw_snippet c);
          topCommentId = opt_field raw_comment_id top
      in \<lparr>thread_id = str_or (raw_thread_id thread) [],
          topLevelComment = to_Comment channel topCommentId topComment,
          totalReplyCount = num_or (opt_field raw_totalReplyCount (raw_thread_snippet thread)) 0,
          replies =
            (case raw_replies thread of
               Some (Some rs) \<Rightarrow>
                 map (\<lambda>reply. to_Comment channel (raw_comment_id reply) (raw_snippet reply)) rs
             | _ \<Rightarrow> [])\<rparr>)"

text \<open>The \<^verbatim>\<open>try\<close> block of \<^verbatim>\<open>CommentService.getComments\<close>.\<close>

definition getComments_try ::
  "crypto \<Rightarrow> string option \<Rightarrow> token_endpoint \<Rightarrow> youtube_api \<Rightarrow> world \<Rightarrow>
     string \<Rightarrow> string \<Rightarrow> string option \<Rightarrow> int \<Rightarrow> (js_error + CommentPage) \<times> world" where
  "getComments_try lib key endpoint api w uid videoId pageToken maxResults =
     (case getClient lib key endpoint w uid of
        (Inl e, w1) \<Rightarrow> (Inl e, w1)
      | (Inr youtube, w1) \<Rightarrow>
          let w2 = w1\<lparr>calls := calls w1 @ [ChannelsList youtube]\<rparr> in
          (case channels_list api (calls w1) youtube of
             Inl e \<Rightarrow> (Inl e, w2)
           | Inr channelResponse \<Rightarrow>
               let channel = str_or (first_channel_id channelResponse) [];
                   w3 = w2\<lparr>calls := calls w2 @ [CommentThreadsList youtube videoId]\<rparr>
               in (case commentThreads_list api (calls w2) youtube videoId pageToken maxResults of
                     Inl e \<Rightarrow> (Inl e, w3)
                   | Inr response \<Rightarrow>
                       (Inr \<lparr>comments =
                               (case thread_items response of
                                  None \<Rightarrow> []
                                | Some threads \<Rightarrow> map (to_CommentThread channel) threads),
                             nextPageToken =
                               (if truthy_str (raw_nextPageToken response)
                                then Some (the_val (raw_nextPageToken response)) else None),
                             userChannelId = channel\<rparr>, w3))))"

text \<open>\<^verbatim>\<open>CommentService.getComments\<close>: every error of the \<^verbatim>\<open>try\<close> block is classified.\<close>

definition getComments ::
  "crypto \<Rightarrow> string option \<Rightarrow> token_endpoint \<Rightarrow> youtube_api \<Rightarrow> world \<Rightarrow>
     string \<Rightarrow> string \<Rightarrow> string option \<Rightarrow> int \<Rightarrow> (js_error + CommentPage) \<times> world" where
  "getComments lib key endpoint api w uid videoId pageToken maxResults =
     (case getComments_try lib key endpoint api w uid videoId pageToken maxResults of
        (Inl error, w') \<Rightarrow> (Inl (ApiErr (handleYouTubeQuotaError (thrown_value error))), w')
      | (Inr page, w') \<Rightarrow> (Inr page, w'))"

text \<open>\<^verbatim>\<open>EventService.log(eventType, userId, ...)\<close>: it writes a row and never throws.\<close>

definition log_event :: "world \<Rightarrow> string \<Rightarrow> string \<Rightarrow> world" where
  "log_event w eventType uid = w\<lparr>eventLog := eventLog w @ [(eventType, uid)]\<rparr>"

text \<open>The \<^verbatim>\<open>try\<close> block of \<^verbatim>\<open>CommentService.deleteComment\<close>.\<close>

definition deleteComment_try ::
  "crypto \<Rightarrow> string option \<Rightarrow> token_endpoint \<Rightarrow> youtube_api \<Rightarrow> world \<Rightarrow>
     string \<Rightarrow> string \<Rightarrow> (js_error + unit) \<times> world" where
  "deleteComment_try lib key endpoint api w uid commentId =
     (case getClient lib key endpoint w uid of
        (Inl e, w1) \<Rightarrow> (Inl e, w1)
      | (Inr youtube, w1) \<Rightarrow>
          let w2 = w1\<lparr>calls := calls w1 @ [CommentsList youtube commentId]\<rparr> in
          (case comments_list api (calls w1) youtube commentId of
             Inl e \<Rightarrow> (Inl e, w2)
           | Inr commentResponse \<Rightarrow>
               (case (case comment_items commentResponse of
                        None \<Rightarrow> None | Some [] \<Rightarrow> None | Some (c # _) \<Rightarrow> Some c) of
                  None \<Rightarrow> (Inl (ApiErr (new_ApiError 404 ''Comment not found'')), w2)
                | Some comment \<Rightarrow>
                    let w3 = w2\<lparr>calls := calls w2 @ [ChannelsList youtube]\<rparr> in
                    (case channels_list api (calls w2) youtube of
                       Inl e \<Rightarrow> (Inl e, w3)
                     | Inr channelResponse \<Rightarrow>
                         if author_value (raw_snippet comment) \<noteq> first_channel_id channelResponse
                         then (Inl (ApiErr (new_ApiError 403 ''You can only delete your own comments'')), w3)
                         else
                           let w4 = w3\<lparr>calls := calls w3 @ [CommentsDelete youtube commentId]\<rparr> in
                           (case comments_delete api (calls w3) youtube commentId of
                              Inl e \<Rightarrow> (Inl e, w4)
                            | Inr _ \<Rightarrow> (Inr (), log_event w4 ''comment_deleted'' uid))))))"

text \<open>\<^verbatim>\<open>CommentService.deleteComment\<close>: an \<open>ApiError\<close> is rethrown, any other error is
  classified.\<close>

definition deleteComment ::
  "crypto \<Rightarrow> string option \<Rightarrow> token_endpoint \<Rightarrow> youtube_api \<Rightarrow> world \<Rightarrow>
     string \<Rightarrow> string \<Rightarrow> (js_error + unit) \<times> world" where
  "deleteComment lib key endpoint api w uid commentId =
     (case deleteComment_try lib key endpoint api w uid commentId of
        (Inl error, w') \<Rightarrow>
          if instanceof_ApiError error then (Inl error, w')
          else (Inl (ApiErr (handleYouTubeQuotaError (thrown_value error))), w')
      | (Inr u, w') \<Rightarrow> (Inr u, w'))"

text \<open>The calls that delete a comment, among the provider calls.\<close>

fun is_delete :: "api_call \<Rightarrow> bool" where
  "is_delete (CommentsDelete _ _) = True"
| "is_delete _ = False"

section \<open>Contracts of the cipher and sample data\<close>

text \<open>What the codec needs of the cipher to open what it sealed: decryption inverts
  encryption under the same key and nonce, the ciphertext is as long as the text, and the
  tag has \<open>AUTH_TAG_LENGTH\<close> bytes.\<close>

definition gcm_correct :: "crypto \<Rightarrow> bool" where
  "gcm_correct lib =
     (\<forall>key iv text data tag.
        gcm_seal lib key iv text = Some (data, tag) \<longrightarrow>
          gcm_open lib key iv tag data = Some text \<and> length data = length text \<and>
          length tag = AUTH_TAG_LENGTH)"


text \<open>A stored credential for concrete runs: the access secret \<^verbatim>\<open>A1\<close> sealed by the
  stand-in cipher, a given refresh envelope, and an expiry one hour after time 0.\<close>

definition sample_row :: "string \<Rightarrow> OAuthToken" where
  "sample_row refresh_envelope =
     \<lparr>accessToken = ''abacadaeafb0b1b2b3b4b5b6b7b8b9ba:3141abacadaeafb0b1b2b3b4b5b6b7b8:3141'',
      refreshToken = refresh_envelope,
      accessTokenExpiresAt = 3600000,
      scope = ''https://www.googleapis.com/auth/youtube.force-ssl''\<rparr>"

text \<open>The refresh secret \<^verbatim>\<open>R1\<close> as the stand-in cipher seals it.\<close>

definition sealed_R1 :: string where
  "sealed_R1 = ''abacadaeafb0b1b2b3b4b5b6b7b8b9ba:3152abacadaeafb0b1b2b3b4b5b6b7b8:3152''"

text \<open>The empty refresh secret as the stand-in cipher seals it: what
  \<^verbatim>\<open>handleCallback\<close> stores as \<^verbatim>\<open>encrypt(tokenData.refresh_token || '')\<close> when the provider
  sent no refresh token.\<close>

definition sealed_empty :: string where
  "sealed_empty = ''abacadaeafb0b1b2b3b4b5b6b7b8b9ba:abacadaeafb0b1b2b3b4b5b6b7b8b9ba:''"

text \<open>A world with that one credential, for the user \<^verbatim>\<open>u1\<close>, at a given time.\<close>

definition sample_world :: "string \<Rightarrow> int \<Rightarrow> world" where
  "sample_world refresh_envelope now =
     \<lparr>oAuthToken = [''u1'' \<mapsto> sample_row refresh_envelope],
      clock = now, drawn = 32, calls = [], eventLog = []\<rparr>"

text \<open>A user row for concrete requests.\<close>

definition sample_user :: User where
  "sample_user = \<lparr>user_id = ''u1'', user_email = ''ann@example.org'', user_googleId = ''g-1''\<rparr>"

text \<open>A comment snippet whose \<^verbatim>\<open>authorChannelId\<close> is as given: absent, or an object
  with the given \<^verbatim>\<open>value\<close>.\<close>

definition sample_snippet :: "string js_opt option \<Rightarrow> Schema_CommentSnippet" where
  "sample_snippet author =
     \<lparr>raw_authorChannelId = author,
      raw_authorDisplayName = Val ''Ann'',
      raw_authorProfileImageUrl = Undefined,
      raw_textDisplay = Val ''Nice video'',
      raw_textOriginal = Val ''Nice video'',
      raw_likeCount = Val 3,
      raw_publishedAt = Val ''2024-01-01T00:00:00Z'',
      raw_updatedAt = Val ''2024-01-01T00:00:00Z''\<rparr>"

text \<open>A provider for concrete runs: the caller's channels are as given, every video has
  one thread with one top-level comment and no replies, every comment id names a comment
  with the given author, and every delete succeeds.\<close>

definition sample_api :: "string js_opt option \<Rightarrow> Schema_Channel list \<Rightarrow> youtube_api" where
  "sample_api author channels =
     \<lparr>channels_list = (\<lambda>history token. Inr \<lparr>channel_items = Some channels\<rparr>),
      commentThreads_list = (\<lambda>history token videoId pageToken maxResults.
        Inr \<lparr>thread_items = Some
               [\<lparr>raw_thread_id = Val ''t1'',
                 raw_thread_snippet = Some
                   \<lparr>raw_topLevelComment = Some
                      \<lparr>raw_comment_id = Val ''c1'', raw_snippet = Some (sample_snippet author)\<rparr>,
                    raw_totalReplyCount = Val 0\<rparr>,
                 raw_replies = None\<rparr>],
             raw_nextPageToken = Undefined\<rparr>),
      comments_list = (\<lambda>history token commentId.
        Inr \<lparr>comment_items = Some
               [\<lparr>raw_comment_id = Val commentId, raw_snippet = Some (sample_snippet author)\<rparr>]\<rparr>),
      comments_delete = (\<lambda>history token commentId. Inr ())\<rparr>"

section \<open>Counting the callers that still await their exchange\<close>




section \<open>The error classifier\<close>

text \<open>
  C8. The classifier returns an \<open>ApiError\<close> for every input: status 403 with reason
  \<^verbatim>\<open>quotaExceeded\<close> gives the quota error (429), status 403 with reason \<^verbatim>\<open>forbidden\<close> gives
  the permission error (403), and every other input, an unrecognized 500 included, gives
  the generic upstream error (500).
\<close>

theorem handleYouTubeQuotaError_cases:
  "(error_status e = JNum 403 \<and> error_reason e = JStr ''quotaExceeded'' \<longrightarrow>
      handleYouTubeQuotaError e =
        new_ApiError 429 ''YouTube API quota exceeded. Please try again later.'') \<and>
   (error_status e = JNum 403 \<and> error_reason e = JStr ''forbidden'' \<longrightarrow>
      handleYouTubeQuotaError e =
        new_ApiError 403 ''You do not have permission to perform this action.'') \<and>
   (\<not> (error_status e = JNum 403 \<and>
        (error_reason e = JStr ''quotaExceeded'' \<or> error_reason e = JStr ''forbidden'')) \<longrightarrow>
      handleYouTubeQuotaError e = new_ApiError 500 ''An error occurred with the YouTube API'')"
  by (simp add: handleYouTubeQuotaError_def error_status_def error_reason_def Let_def)

text \<open>
  The three cases of C8 on provider errors 403/quotaExceeded, 403/forbidden and 500.
\<close>

theorem handleYouTubeQuotaError_cases_witness:
  "handleYouTubeQuotaError (provider_error 403 [''quotaExceeded'']) =
     new_ApiError 429 ''YouTube API quota exceeded. Please try again later.'' \<and>
   handleYouTubeQuotaError (provider_error 403 [''forbidden'']) =
     new_ApiError 403 ''You do not have permission to perform this action.'' \<and>
   handleYouTubeQuotaError (provider_error 500 [''backendError'']) =
     new_ApiError 500 ''An error occurred with the YouTube API''"
  using handleYouTubeQuotaError_cases [of "provider_error 403 [''quotaExceeded'']"]
        handleYouTubeQuotaError_cases [of "provider_error 403 [''forbidden'']"]
        handleYouTubeQuotaError_cases [of "provider_error 500 [''backendError'']"]
  by (simp add: provider_error_def error_status_def error_reason_def)

text \<open>
  C5, as stated, fails: a provider error with status 404 and one with status 401 are both
  classified as the generic upstream error with status code 500, not as a not-found (404)
  or a re-authorization (401) error.
\<close>

theorem classifier_404_401_counterexample:
  "handleYouTubeQuotaError (provider_error 404 [''commentNotFound'']) =
     new_ApiError 500 ''An error occurred with the YouTube API'' \<and>
   handleYouTubeQuotaError (provider_error 401 [''authError'']) =
     new_ApiError 500 ''An error occurred with the YouTube API'' \<and>
   statusCode (handleYouTubeQuotaError (provider_error 404 [''commentNotFound''])) \<noteq> 404 \<and>
   statusCode (handleYouTubeQuotaError (provider_error 401 [''authError''])) \<noteq> 401"
  by (simp add: handleYouTubeQuotaError_def provider_error_def new_ApiError_def)

text \<open>
  C5, amended. The classifier maps every provider error with HTTP status 404 and every
  provider error with HTTP status 401 to the generic upstream error (status code 500), the
  value it returns for every status other than 403.
\<close>

theorem classifier_404_401_generic:
  "error_status e = JNum 404 \<or> error_status e = JNum 401 \<Longrightarrow>
   handleYouTubeQuotaError e = new_ApiError 500 ''An error occurred with the YouTube API''"
  by (auto simp add: handleYouTubeQuotaError_def error_status_def)

text \<open>
  C5, amended, on a provider error with status 404.
\<close>

theorem classifier_404_401_generic_witness:
  "error_status (provider_error 404 [''commentNotFound'']) = JNum 404 \<and>
   handleYouTubeQuotaError (provider_error 404 [''commentNotFound'']) =
     new_ApiError 500 ''An error occurred with the YouTube API''"
proof -
  have h: "error_status (provider_error 404 [''commentNotFound'']) = JNum 404"
    by (simp add: provider_error_def error_status_def)
  from h have "error_status (provider_error 404 [''commentNotFound'']) = JNum 404 \<or>
      error_status (provider_error 404 [''commentNotFound'']) = JNum 401"
    by simp
  from classifier_404_401_generic [OF this] h show ?thesis by simp
qed

section \<open>The encryption codec\<close>


lemma hex_digit_not_colon: "n < 16 \<Longrightarrow> hex_digit n \<noteq> CHR '':''"
proof -
  assume "n < 16"
  then have "n \<in> set [0..<16]" by simp
  then show ?thesis
    by (auto simp add: hex_digit_def upt_rec)
qed

lemma of_char_lt_256: "(of_char c :: nat) < 256"
  by (metis of_char_mod_256 mod_less_divisor zero_less_numeral)


lemma colon_notin_to_hex: "CHR '':'' \<notin> set (to_hex buf)"
proof (induction buf)
  case Nil
  show ?case by (simp add: to_hex_def)
next
  case (Cons c buf)
  have "(of_char c :: nat) < 256" by (rule of_char_lt_256)
  then have h: "(of_char c :: nat) div 16 < 16" and l: "(of_char c :: nat) mod 16 < 16"
    by presburger+
  from Cons hex_digit_not_colon [OF h] hex_digit_not_colon [OF l] show ?case
    by (simp add: to_hex_def)
qed


lemma split_colon_no_colon: "CHR '':'' \<notin> set a \<Longrightarrow> split_colon a = [a]"
  by (induction a) auto

lemma split_colon_append:
  "CHR '':'' \<notin> set a \<Longrightarrow> split_colon (a @ CHR '':'' # b) = a # split_colon b"
  by (induction a) auto

lemma length_sample_tag: "length (sample_tag iv data) = AUTH_TAG_LENGTH"
  by (simp add: sample_tag_def)

lemma sample_crypto_correct: "gcm_correct sample_crypto"
  by (simp add: gcm_correct_def sample_crypto_def length_sample_tag)


lemma split_envelope:
  "split_colon (to_hex iv @ '':'' @ to_hex tag @ '':'' @ to_hex data) = [to_hex iv, to_hex tag, to_hex data]"
  using split_colon_append [OF colon_notin_to_hex, of iv "to_hex tag @ '':'' @ to_hex data"]
        split_colon_append [OF colon_notin_to_hex, of tag "to_hex data"]
        split_colon_no_colon [OF colon_notin_to_hex, of data]
  by simp


lemma encrypt_Inr:
  assumes "encrypt lib key iv text = Inr envelope"
  shows "\<not> bad_key key \<and> (\<exists>data tag. gcm_seal lib (from_hex (the key)) iv text = Some (data, tag) \<and>
           envelope = to_hex iv @ '':'' @ to_hex tag @ '':'' @ to_hex data)"
  using assms by (auto simp add: encrypt_def split: if_splits option.splits)




lemma decrypt_sealed_empty:
  assumes "gcm_correct lib" "encrypt lib key iv [] = Inr envelope"
  shows "decrypt lib key envelope = Inl (Error ''Invalid encrypted text format'')"
proof -
  from encrypt_Inr [OF assms(2)] obtain data tag where
    key: "\<not> bad_key key" and
    seal: "gcm_seal lib (from_hex (the key)) iv [] = Some (data, tag)" and
    env: "envelope = to_hex iv @ '':'' @ to_hex tag @ '':'' @ to_hex data"
    by blast
  from assms(1) seal have "data = []" unfolding gcm_correct_def by fastforce
  with key show ?thesis
    unfolding env decrypt_def split_envelope by (simp add: to_hex_def)
qed

lemma decrypt_empty:
  "\<not> bad_key key \<Longrightarrow> decrypt lib key [] = Inl (Error ''Invalid encrypted text format'')"
  by (simp add: decrypt_def)

section \<open>Fresh and stale credentials\<close>

lemma sample_access: "decrypt sample_crypto sample_key (accessToken (sample_row r)) = Inr ''A1''"
  unfolding sample_row_def by code_simp

text \<open>
  C3. When the stored credential's remaining lifetime is strictly greater than the
  five-minute buffer, \<open>getValidAccessToken\<close> returns the decryption of the stored access
  secret and leaves the world as it was: no provider call is issued and the credential
  store is not written.
\<close>

theorem getValidAccessToken_fresh:
  assumes "oAuthToken w uid = Some tokenRecord"
    and "accessTokenExpiresAt tokenRecord - clock w > 5 * 60 * 1000"
  shows "getValidAccessToken lib key endpoint w uid = (decrypt lib key (accessToken tokenRecord), w)"
  using assms by (simp add: getValidAccessToken_def needs_refresh_def)

text \<open>
  C3 ten seconds after a credential with one hour of lifetime was stored.
\<close>

theorem getValidAccessToken_fresh_witness:
  "getValidAccessToken sample_crypto sample_key (sample_endpoint Undefined) (sample_world sealed_R1 10000) ''u1'' =
     (Inr ''A1'', sample_world sealed_R1 10000)"
proof -
  have r: "oAuthToken (sample_world sealed_R1 10000) ''u1'' = Some (sample_row sealed_R1)"
    by (simp add: sample_world_def)
  have f: "accessTokenExpiresAt (sample_row sealed_R1) - clock (sample_world sealed_R1 10000) > 5 * 60 * 1000"
    by (simp add: sample_world_def sample_row_def)
  from getValidAccessToken_fresh [OF r f] sample_access show ?thesis by simp
qed

text \<open>
  C4, as stated, fails on the boundary: with a remaining lifetime of exactly the buffer
  window (which the claim counts as stale) and an empty refresh secret stored,
  \<open>getValidAccessToken\<close> does not fail; it returns the stored access secret.
\<close>

theorem empty_refresh_counterexample:
  "accessTokenExpiresAt (sample_row sealed_empty) - clock (sample_world sealed_empty 3300000) \<le> 5 * 60 * 1000 \<and>
   encrypt sample_crypto sample_key (randomBytes sample_crypto 0 IV_LENGTH) [] = Inr sealed_empty \<and>
   oAuthToken (sample_world sealed_empty 3300000) ''u1'' = Some (sample_row sealed_empty) \<and>
   getValidAccessToken sample_crypto sample_key (sample_endpoint Undefined) (sample_world sealed_empty 3300000) ''u1'' =
     (Inr ''A1'', sample_world sealed_empty 3300000)"
proof -
  have e: "encrypt sample_crypto sample_key (randomBytes sample_crypto 0 IV_LENGTH) [] = Inr sealed_empty"
    unfolding sealed_empty_def by code_simp
  have r: "oAuthToken (sample_world sealed_empty 3300000) ''u1'' = Some (sample_row sealed_empty)"
    by (simp add: sample_world_def)
  have b: "accessTokenExpiresAt (sample_row sealed_empty) - clock (sample_world sealed_empty 3300000)
             \<le> 5 * 60 * 1000"
    by (simp add: sample_world_def sample_row_def)
  have n: "\<not> needs_refresh (sample_row sealed_empty) (clock (sample_world sealed_empty 3300000))"
    by (simp add: needs_refresh_def sample_world_def sample_row_def)
  have g: "getValidAccessToken sample_crypto sample_key (sample_endpoint Undefined)
             (sample_world sealed_empty 3300000) ''u1'' = (Inr ''A1'', sample_world sealed_empty 3300000)"
    by (simp add: getValidAccessToken_def r n sample_access)
  from b e r g show ?thesis by simp
qed

text \<open>
  C4, amended. When the remaining lifetime is strictly less than the buffer window and the
  stored refresh secret is empty (an empty column, or the envelope \<open>encrypt\<close> makes of the
  empty string), \<open>getValidAccessToken\<close> fails with the plain error
  \<^verbatim>\<open>Invalid encrypted text format\<close> that \<open>decrypt\<close> throws, issues no provider call and
  leaves the credential store as it was.
\<close>

theorem getValidAccessToken_empty_refresh:
  assumes "oAuthToken w uid = Some tokenRecord"
    and "accessTokenExpiresAt tokenRecord - clock w < 5 * 60 * 1000"
    and "\<not> bad_key key" and "gcm_correct lib"
    and "refreshToken tokenRecord = [] \<or> encrypt lib key iv [] = Inr (refreshToken tokenRecord)"
  shows "getValidAccessToken lib key endpoint w uid = (Inl (Error ''Invalid encrypted text format''), w)"
proof -
  from assms(3,4,5) have "decrypt lib key (refreshToken tokenRecord) = Inl (Error ''Invalid encrypted text format'')"
    using decrypt_empty decrypt_sealed_empty by metis
  with assms(1,2) show ?thesis
    by (simp add: getValidAccessToken_def needs_refresh_def refreshAccessToken_def)
qed

text \<open>
  C4, amended, ten seconds before the expiry of a credential stored without a refresh
  secret.
\<close>

theorem getValidAccessToken_empty_refresh_witness:
  "getValidAccessToken sample_crypto sample_key (sample_endpoint Undefined) (sample_world sealed_empty 3590000) ''u1'' =
     (Inl (Error ''Invalid encrypted text format''), sample_world sealed_empty 3590000)"
proof -
  have r: "oAuthToken (sample_world sealed_empty 3590000) ''u1'' = Some (sample_row sealed_empty)"
    by (simp add: sample_world_def)
  have f: "accessTokenExpiresAt (sample_row sealed_empty) - clock (sample_world sealed_empty 3590000) < 5 * 60 * 1000"
    by (simp add: sample_world_def sample_row_def)
  have k: "\<not> bad_key sample_key" by code_simp
  have e: "refreshToken (sample_row sealed_empty) = [] \<or>
      encrypt sample_crypto sample_key (randomBytes sample_crypto 0 IV_LENGTH) [] = Inr (refreshToken (sample_row sealed_empty))"
    unfolding sample_row_def sealed_empty_def by code_simp
  from getValidAccessToken_empty_refresh [OF r f k sample_crypto_correct e] show ?thesis .
qed

section \<open>Concurrent refreshes and the refresh write\<close>

lemma encrypt_io_frame:
  "calls (snd (encrypt_io lib key w text)) = calls w \<and> clock (snd (encrypt_io lib key w text)) = clock w \<and>
   oAuthToken (snd (encrypt_io lib key w text)) = oAuthToken w"
  by (simp add: encrypt_io_def)

lemma refresh_spread_frame:
  "calls (snd (refresh_spread lib key w c)) = calls w \<and> clock (snd (refresh_spread lib key w c)) = clock w \<and>
   oAuthToken (snd (refresh_spread lib key w c)) = oAuthToken w"
  using encrypt_io_frame [of lib key w "the_val (refresh_token c)"]
  by (auto simp add: refresh_spread_def split: prod.splits sum.splits)

lemma prisma_oAuthToken_update_frame:
  "prisma_oAuthToken_update w uid d = Inr w' \<Longrightarrow> calls w' = calls w \<and> clock w' = clock w"
  by (auto simp add: prisma_oAuthToken_update_def split: option.splits)

lemma store_refreshed_frame:
  "calls (snd (store_refreshed lib key w uid response)) = calls w \<and>
   clock (snd (store_refreshed lib key w uid response)) = clock w"
proof (cases response)
  case (Inl e)
  then show ?thesis by (simp add: store_refreshed_def)
next
  case (Inr c)
  show ?thesis
  proof (cases "truthy_str (access_token c)")
    case False
    with Inr show ?thesis by (simp add: store_refreshed_def)
  next
    case True
    obtain r1 w1 where e1: "encrypt_io lib key w (the_val (access_token c)) = (r1, w1)"
      by (cases "encrypt_io lib key w (the_val (access_token c))")
    from encrypt_io_frame [of lib key w "the_val (access_token c)"] e1
    have f1: "calls w1 = calls w \<and> clock w1 = clock w" by simp
    obtain r2 w2 where e2: "refresh_spread lib key w1 c = (r2, w2)"
      by (cases "refresh_spread lib key w1 c")
    from refresh_spread_frame [of lib key w1 c] e2 f1
    have f2: "calls w2 = calls w \<and> clock w2 = clock w" by simp
    from Inr True e1 e2 f1 f2 show ?thesis
      by (auto simp add: store_refreshed_def Let_def split: sum.splits dest: prisma_oAuthToken_update_frame)
  qed
qed


























text \<open>
  A single caller resumed three times does what one call of \<open>getValidAccessToken\<close> does.
\<close>

lemma run_single_caller:
  "run lib key endpoint uid [(0, 0), (0, 0), (0, 0)] (w, [Start]) =
     (snd (getValidAccessToken lib key endpoint w uid),
      [Done (fst (getValidAccessToken lib key endpoint w uid))])"
proof (cases "oAuthToken w uid")
  case None
  then show ?thesis by (simp add: getValidAccessToken_def)
next
  case (Some r)
  show ?thesis
  proof (cases "needs_refresh r (clock w)")
    case False
    with Some show ?thesis by (simp add: getValidAccessToken_def)
  next
    case True
    show ?thesis
    proof (cases "decrypt lib key (refreshToken r)")
      case (Inl e)
      with Some True show ?thesis by (simp add: getValidAccessToken_def refreshAccessToken_def)
    next
      case (Inr rt)
      with Some True show ?thesis
        by (simp add: getValidAccessToken_def refreshAccessToken_def exchange_def case_prod_beta)
    qed
  qed
qed

section \<open>Session tokens\<close>

lemma generateToken_Inr:
  assumes "generateToken lib JWT_SECRET JWT_EXPIRES_IN issued user = Inr (Jwt payload signature)"
  shows "\<not> not_configured JWT_SECRET \<and> signature = hmac lib (the JWT_SECRET) payload"
  using assms
  by (auto simp add: generateToken_def jwt_sign_def Let_def split: if_splits option.splits)

lemma authenticate_try_expired:
  assumes "\<not> not_configured JWT_SECRET" "signature = hmac lib (the JWT_SECRET) payload"
    and "exp payload = Some e" "e \<le> now div 1000"
  shows "authenticate_try lib JWT_SECRET users now
           \<lparr>authorization = Some (Bearer (Jwt payload signature)), cookie_token = None\<rparr> =
         Inl (TokenExpiredError ''jwt expired'')"
  using assms by (simp add: authenticate_try_def falsy_token_def jwt_verify_def)

lemma authenticate_try_tampered:
  assumes "\<not> not_configured JWT_SECRET" "signature' \<noteq> hmac lib (the JWT_SECRET) payload"
  shows "authenticate_try lib JWT_SECRET users now
           \<lparr>authorization = Some (Bearer (Jwt payload signature')), cookie_token = None\<rparr> =
         Inl (JsonWebTokenError ''invalid signature'')"
  using assms by (simp add: authenticate_try_def falsy_token_def jwt_verify_def)

text \<open>
  C6 fails on the code. For a token issued by \<open>generateToken\<close> whose expiry has elapsed,
  \<open>authenticate\<close> passes on the error \<^verbatim>\<open>ApiError(401, 'Invalid token')\<close>, and for the same
  token with an altered signature it passes on the very same error: the test for
  \<^verbatim>\<open>JsonWebTokenError\<close> comes first and an expired token's error is an instance of it, so the
  \<^verbatim>\<open>'Token expired'\<close> branch is never taken.
\<close>

theorem expired_and_tampered_indistinguishable:
  assumes gen: "generateToken lib JWT_SECRET JWT_EXPIRES_IN issued user = Inr (Jwt payload signature)"
    and expired: "exp payload = Some e" "e \<le> now div 1000"
    and altered: "signature' \<noteq> signature"
  shows "authenticate lib JWT_SECRET users now
           \<lparr>authorization = Some (Bearer (Jwt payload signature)), cookie_token = None\<rparr> =
           Inl (ApiErr (new_ApiError 401 ''Invalid token'')) \<and>
         authenticate lib JWT_SECRET users now'
           \<lparr>authorization = Some (Bearer (Jwt payload signature')), cookie_token = None\<rparr> =
           Inl (ApiErr (new_ApiError 401 ''Invalid token''))"
proof -
  from generateToken_Inr [OF gen] have conf: "\<not> not_configured JWT_SECRET"
    and sig: "signature = hmac lib (the JWT_SECRET) payload" by simp_all
  from altered sig have alt: "signature' \<noteq> hmac lib (the JWT_SECRET) payload" by simp
  show ?thesis
    using authenticate_try_expired [OF conf sig expired, of users]
          authenticate_try_tampered [OF conf alt, of users now']
    by (simp add: authenticate_def)
qed

text \<open>
  C6 on a token issued at time 0 for seven days, presented after eight days, and on the
  same token with another signature.
\<close>

theorem expired_and_tampered_indistinguishable_witness:
  "generateToken sample_jwt (Some ''s3cret'') None 0 sample_user =
     Inr (Jwt \<lparr>userId = ''u1'', email = ''ann@example.org'', googleId = ''g-1'', iat = 0,
               exp = Some 604800\<rparr> ''s3cret.u1'') \<and>
   authenticate sample_jwt (Some ''s3cret'') [''u1'' \<mapsto> sample_user] 691200000
     \<lparr>authorization = Some (Bearer (Jwt \<lparr>userId = ''u1'', email = ''ann@example.org'',
        googleId = ''g-1'', iat = 0, exp = Some 604800\<rparr> ''s3cret.u1'')), cookie_token = None\<rparr> =
     Inl (ApiErr (new_ApiError 401 ''Invalid token'')) \<and>
   authenticate sample_jwt (Some ''s3cret'') [''u1'' \<mapsto> sample_user] 1000
     \<lparr>authorization = Some (Bearer (Jwt \<lparr>userId = ''u1'', email = ''ann@example.org'',
        googleId = ''g-1'', iat = 0, exp = Some 604800\<rparr> ''s3cret.u2'')), cookie_token = None\<rparr> =
     Inl (ApiErr (new_ApiError 401 ''Invalid token''))"
proof -
  have g: "generateToken sample_jwt (Some ''s3cret'') None 0 sample_user =
     Inr (Jwt \<lparr>userId = ''u1'', email = ''ann@example.org'', googleId = ''g-1'', iat = 0,
               exp = Some 604800\<rparr> ''s3cret.u1'')"
    by (simp add: generateToken_def not_configured_def jwt_sign_def sample_jwt_def sample_user_def)
  have e: "exp \<lparr>userId = ''u1'', email = ''ann@example.org'', googleId = ''g-1'', iat = 0,
               exp = Some 604800\<rparr> = Some 604800" by simp
  have l: "(604800::int) \<le> 691200000 div 1000" by simp
  have a: "''s3cret.u2'' \<noteq> ''s3cret.u1''" by simp
  from expired_and_tampered_indistinguishable [OF g e l a, of "[''u1'' \<mapsto> sample_user]" 1000] g
  show ?thesis by simp
qed

section \<open>Comment ownership\<close>

lemma getValidAccessToken_calls:
  "filter is_delete (calls (snd (getValidAccessToken lib key endpoint w uid))) = filter is_delete (calls w)"
proof (cases "oAuthToken w uid")
  case None
  then show ?thesis by (simp add: getValidAccessToken_def)
next
  case (Some r)
  show ?thesis
  proof (cases "needs_refresh r (clock w)")
    case False
    with Some show ?thesis by (simp add: getValidAccessToken_def)
  next
    case True
    show ?thesis
    proof (cases "decrypt lib key (refreshToken r)")
      case (Inl e)
      with Some True show ?thesis by (simp add: getValidAccessToken_def refreshAccessToken_def)
    next
      case (Inr rt)
      let ?w1 = "w\<lparr>calls := calls w @ [RefreshAccessToken rt]\<rparr>"
      from Some True Inr
      have "getValidAccessToken lib key endpoint w uid =
              store_refreshed lib key ?w1 uid (endpoint (calls w) rt)"
        by (simp add: getValidAccessToken_def refreshAccessToken_def exchange_def)
      with store_refreshed_frame [of lib key ?w1 uid "endpoint (calls w) rt"]
      show ?thesis by simp
    qed
  qed
qed

lemma sample_client:
  "getClient sample_crypto sample_key endpoint (sample_world sealed_R1 10000) ''u1'' =
     (Inr ''A1'', sample_world sealed_R1 10000)"
proof -
  have "oAuthToken (sample_world sealed_R1 10000) ''u1'' = Some (sample_row sealed_R1)"
    by (simp add: sample_world_def)
  moreover have "\<not> needs_refresh (sample_row sealed_R1) (clock (sample_world sealed_R1 10000))"
    by (simp add: needs_refresh_def sample_world_def sample_row_def)
  ultimately show ?thesis
    by (simp add: getClient_def getValidAccessToken_def sample_access)
qed

text \<open>
  C9. When the comment is found and the caller's channel is looked up, and the comment's
  author channel id differs from the caller's channel id, \<open>deleteComment\<close> fails with
  \<^verbatim>\<open>ApiError(403, 'You can only delete your own comments')\<close>; the only provider calls it
  issues after obtaining the client are the two lookups, and no delete call is issued.
\<close>

theorem deleteComment_not_owner:
  assumes client: "getClient lib key endpoint w uid = (Inr youtube, w1)"
    and found: "comments_list api (calls w1) youtube commentId = Inr commentResponse"
               "comment_items commentResponse = Some (comment # others)"
    and channel: "channels_list api (calls w1 @ [CommentsList youtube commentId]) youtube =
                    Inr channelResponse"
    and differs: "author_value (raw_snippet comment) \<noteq> first_channel_id channelResponse"
  shows "deleteComment lib key endpoint api w uid commentId =
           (Inl (ApiErr (new_ApiError 403 ''You can only delete your own comments'')),
            w1\<lparr>calls := calls w1 @ [CommentsList youtube commentId, ChannelsList youtube]\<rparr>) \<and>
         filter is_delete (calls (snd (deleteComment lib key endpoint api w uid commentId))) =
           filter is_delete (calls w)"
proof -
  from client found channel differs
  have r: "deleteComment lib key endpoint api w uid commentId =
           (Inl (ApiErr (new_ApiError 403 ''You can only delete your own comments'')),
            w1\<lparr>calls := calls w1 @ [CommentsList youtube commentId, ChannelsList youtube]\<rparr>)"
    by (simp add: deleteComment_def deleteComment_try_def)
  from client getValidAccessToken_calls [of lib key endpoint w uid]
  have "filter is_delete (calls w1) = filter is_delete (calls w)"
    by (simp add: getClient_def)
  with r show ?thesis by simp
qed

text \<open>
  C9 on a comment written by another channel.
\<close>

theorem deleteComment_not_owner_witness:
  "deleteComment sample_crypto sample_key (sample_endpoint Undefined)
     (sample_api (Some (Val ''UC-other'')) [\<lparr>raw_channel_id = Val ''UC-me''\<rparr>])
     (sample_world sealed_R1 10000) ''u1'' ''c1'' =
     (Inl (ApiErr (new_ApiError 403 ''You can only delete your own comments'')),
      (sample_world sealed_R1 10000)\<lparr>calls := [CommentsList ''A1'' ''c1'', ChannelsList ''A1'']\<rparr>)"
proof -
  let ?w = "sample_world sealed_R1 10000"
  let ?api = "sample_api (Some (Val ''UC-other'')) [\<lparr>raw_channel_id = Val ''UC-me''\<rparr>]"
  let ?comment = "\<lparr>raw_comment_id = Val ''c1'', raw_snippet = Some (sample_snippet (Some (Val ''UC-other'')))\<rparr>"
  have c: "getClient sample_crypto sample_key (sample_endpoint Undefined) ?w ''u1'' = (Inr ''A1'', ?w)"
    by (rule sample_client)
  have f1: "comments_list ?api (calls ?w) ''A1'' ''c1'' = Inr \<lparr>comment_items = Some [?comment]\<rparr>"
    by (simp add: sample_api_def)
  have f2: "comment_items \<lparr>comment_items = Some [?comment]\<rparr> = Some (?comment # [])" by simp
  have ch: "channels_list ?api (calls ?w @ [CommentsList ''A1'' ''c1'']) ''A1'' =
      Inr \<lparr>channel_items = Some [\<lparr>raw_channel_id = Val ''UC-me''\<rparr>]\<rparr>"
    by (simp add: sample_api_def)
  have d: "author_value (raw_snippet ?comment) \<noteq>
      first_channel_id \<lparr>channel_items = Some [\<lparr>raw_channel_id = Val ''UC-me''\<rparr>]\<rparr>"
    by (simp add: author_value_def first_channel_id_def sample_snippet_def)
  have cl: "calls ?w = []" by (simp add: sample_world_def)
  from deleteComment_not_owner [OF c f1 f2 ch d] cl show ?thesis by simp
qed

lemma deleteComment_world:
  "snd (deleteComment lib key endpoint api w uid commentId) =
     snd (deleteComment_try lib key endpoint api w uid commentId)"
  by (simp add: deleteComment_def split: prod.splits sum.splits)

lemma delete_issued_only_for_owner:
  assumes "filter is_delete (calls (snd (deleteComment lib key endpoint api w uid commentId))) \<noteq>
             filter is_delete (calls w)"
  shows "\<exists>youtube w1 commentResponse comment others channelResponse.
           getClient lib key endpoint w uid = (Inr youtube, w1) \<and>
           comments_list api (calls w1) youtube commentId = Inr commentResponse \<and>
           comment_items commentResponse = Some (comment # others) \<and>
           channels_list api (calls w1 @ [CommentsList youtube commentId]) youtube = Inr channelResponse \<and>
           author_value (raw_snippet comment) = first_channel_id channelResponse"
proof -
  from assms have issued:
    "filter is_delete (calls (snd (deleteComment_try lib key endpoint api w uid commentId))) \<noteq>
       filter is_delete (calls w)"
    by (simp add: deleteComment_world)
  obtain res w1 where c: "getClient lib key endpoint w uid = (res, w1)"
    by (cases "getClient lib key endpoint w uid")
  from c getValidAccessToken_calls [of lib key endpoint w uid]
  have keep: "filter is_delete (calls w1) = filter is_delete (calls w)"
    by (simp add: getClient_def)
  show ?thesis
  proof (cases res)
    case (Inl e)
    with c keep issued show ?thesis
      by (simp add: deleteComment_try_def)
  next
    case (Inr youtube)
    note y = this
    show ?thesis
    proof (cases "comments_list api (calls w1) youtube commentId")
      case (Inl e)
      with c y keep issued show ?thesis
        by (simp add: deleteComment_try_def)
    next
      case (Inr commentResponse)
      note cr = this
      show ?thesis
      proof (cases "comment_items commentResponse")
        case None
        with c y cr keep issued show ?thesis
          by (simp add: deleteComment_try_def)
      next
        case (Some items)
        show ?thesis
        proof (cases items)
          case Nil
          with Some c y cr keep issued show ?thesis
            by (simp add: deleteComment_try_def)
        next
          case (Cons comment others)
          with Some have it: "comment_items commentResponse = Some (comment # others)" by simp
          show ?thesis
          proof (cases "channels_list api (calls w1 @ [CommentsList youtube commentId]) youtube")
            case (Inl e)
            with c y cr it keep issued show ?thesis
              by (simp add: deleteComment_try_def)
          next
            case (Inr channelResponse)
            show ?thesis
            proof (cases "author_value (raw_snippet comment) = first_channel_id channelResponse")
              case True
              with c y cr it Inr show ?thesis by blast
            next
              case False
              with c y cr it Inr keep issued show ?thesis
                by (simp add: deleteComment_try_def)
            qed
          qed
        qed
      qed
    qed
  qed
qed

lemma to_Comment_canDelete:
  "(channel \<noteq> [] \<longrightarrow>
      canDelete (to_Comment channel cid snippet) =
        (authorChannelId (to_Comment channel cid snippet) = channel)) \<and>
   (canDelete (to_Comment channel cid snippet) \<longrightarrow>
      authorChannelId (to_Comment channel cid snippet) = channel)"
  by (cases "author_value snippet") (auto simp add: to_Comment_def str_or_def)

lemma to_CommentThread_comments:
  assumes "c = topLevelComment (to_CommentThread channel thread) \<or>
           c \<in> set (replies (to_CommentThread channel thread))"
  shows "\<exists>cid snippet. c = to_Comment channel cid snippet"
  using assms
  by (auto simp add: to_CommentThread_def Let_def split: option.splits)

lemma getComments_Inr:
  assumes "getComments lib key endpoint api w uid videoId pageToken maxResults = (Inr page, w')"
  shows "\<exists>threads. comments page = map (to_CommentThread (userChannelId page)) threads"
proof -
  from assms have t: "getComments_try lib key endpoint api w uid videoId pageToken maxResults = (Inr page, w')"
    by (auto simp add: getComments_def split: prod.splits sum.splits)
  obtain res w1 where c: "getClient lib key endpoint w uid = (res, w1)"
    by (cases "getClient lib key endpoint w uid")
  with t obtain youtube where y: "res = Inr youtube"
    by (cases res) (simp_all add: getComments_try_def)
  let ?w2 = "w1\<lparr>calls := calls w1 @ [ChannelsList youtube]\<rparr>"
  from t c y obtain channelResponse where
    ch: "channels_list api (calls w1) youtube = Inr channelResponse"
    by (cases "channels_list api (calls w1) youtube") (simp_all add: getComments_try_def Let_def)
  from t c y ch obtain response where
    r: "commentThreads_list api (calls ?w2) youtube videoId pageToken maxResults = Inr response"
    by (cases "commentThreads_list api (calls ?w2) youtube videoId pageToken maxResults")
       (simp_all add: getComments_try_def Let_def)
  from t c y ch r
  have "page = \<lparr>comments =
                  (case thread_items response of
                     None \<Rightarrow> []
                   | Some threads \<Rightarrow>
                       map (to_CommentThread (str_or (first_channel_id channelResponse) [])) threads),
                nextPageToken =
                  (if truthy_str (raw_nextPageToken response)
                   then Some (the_val (raw_nextPageToken response)) else None),
                userChannelId = str_or (first_channel_id channelResponse) []\<rparr>"
    by (simp add: getComments_try_def Let_def)
  then show ?thesis
    by (cases "thread_items response") auto
qed

text \<open>
  C10, amended. In every comment-thread list returned by \<open>getComments\<close> whose
  \<open>userChannelId\<close> is not empty, the \<open>canDelete\<close> flag of each comment (top-level comments
  and replies) is true exactly when the comment's \<open>authorChannelId\<close> equals that
  \<open>userChannelId\<close>; and in every list, \<open>canDelete\<close> implies that the two are equal.
\<close>

theorem canDelete_for_known_channel:
  assumes ok: "getComments lib key endpoint api w uid videoId pageToken maxResults = (Inr page, w')"
    and thread: "thread \<in> set (comments page)"
    and c: "c = topLevelComment thread \<or> c \<in> set (replies thread)"
  shows "(userChannelId page \<noteq> [] \<longrightarrow> canDelete c = (authorChannelId c = userChannelId page)) \<and>
         (canDelete c \<longrightarrow> authorChannelId c = userChannelId page)"
proof -
  from getComments_Inr [OF ok] obtain threads where
    "comments page = map (to_CommentThread (userChannelId page)) threads" by blast
  with thread obtain t where "thread = to_CommentThread (userChannelId page) t" by auto
  with c to_CommentThread_comments [of c "userChannelId page" t]
  obtain cid snippet where "c = to_Comment (userChannelId page) cid snippet" by blast
  with to_Comment_canDelete [of "userChannelId page" cid snippet] show ?thesis by simp
qed

lemma sample_page:
  "fst (getComments sample_crypto sample_key endpoint (sample_api author channels)
          (sample_world sealed_R1 10000) ''u1'' ''v1'' None 20) =
     Inr \<lparr>comments =
            [to_CommentThread (str_or (first_channel_id \<lparr>channel_items = Some channels\<rparr>) [])
               \<lparr>raw_thread_id = Val ''t1'',
                raw_thread_snippet = Some
                  \<lparr>raw_topLevelComment = Some
                     \<lparr>raw_comment_id = Val ''c1'', raw_snippet = Some (sample_snippet author)\<rparr>,
                   raw_totalReplyCount = Val 0\<rparr>,
                raw_replies = None\<rparr>],
          nextPageToken = None,
          userChannelId = str_or (first_channel_id \<lparr>channel_items = Some channels\<rparr>) []\<rparr>"
  by (simp add: getComments_def getComments_try_def sample_client sample_api_def Let_def)

text \<open>
  C10, as stated, fails: when the provider gives no author channel id for a comment and
  the caller has no channel, the comment's \<open>authorChannelId\<close> and the response's
  \<open>userChannelId\<close> are both reported as the empty string, yet \<open>canDelete\<close> is false.
\<close>

theorem canDelete_counterexample:
  "(case fst (getComments sample_crypto sample_key (sample_endpoint Undefined) (sample_api None [])
        (sample_world sealed_R1 10000) ''u1'' ''v1'' None 20) of
      Inl e \<Rightarrow> False
    | Inr page \<Rightarrow>
        userChannelId page = [] \<and>
        map (\<lambda>t. (authorChannelId (topLevelComment t), canDelete (topLevelComment t)))
          (comments page) = [([], False)])"
  by (simp add: sample_page to_CommentThread_def to_Comment_def first_channel_id_def
        str_or_def author_value_def sample_snippet_def opt_field_def Let_def)

text \<open>
  C10, amended, on a comment written by the caller's own channel.
\<close>

theorem canDelete_for_known_channel_witness:
  "(case fst (getComments sample_crypto sample_key (sample_endpoint Undefined)
        (sample_api (Some (Val ''UC-me'')) [\<lparr>raw_channel_id = Val ''UC-me''\<rparr>])
        (sample_world sealed_R1 10000) ''u1'' ''v1'' None 20) of
      Inl e \<Rightarrow> False
    | Inr page \<Rightarrow>
        userChannelId page = ''UC-me'' \<and>
        list_all (\<lambda>t. canDelete (topLevelComment t) \<and>
                    authorChannelId (topLevelComment t) = userChannelId page) (comments page) \<and>
        comments page \<noteq> [])"
proof -
  let ?g = "getComments sample_crypto sample_key (sample_endpoint Undefined)
        (sample_api (Some (Val ''UC-me'')) [\<lparr>raw_channel_id = Val ''UC-me''\<rparr>])
        (sample_world sealed_R1 10000) ''u1'' ''v1'' None 20"
  let ?ch = "str_or (first_channel_id \<lparr>channel_items = Some [\<lparr>raw_channel_id = Val ''UC-me''\<rparr>]\<rparr>) []"
  let ?t = "to_CommentThread ?ch
               \<lparr>raw_thread_id = Val ''t1'',
                raw_thread_snippet = Some
                  \<lparr>raw_topLevelComment = Some
                     \<lparr>raw_comment_id = Val ''c1'',
                      raw_snippet = Some (sample_snippet (Some (Val ''UC-me'')))\<rparr>,
                   raw_totalReplyCount = Val 0\<rparr>,
                raw_replies = None\<rparr>"
  let ?page = "\<lparr>comments = [?t], nextPageToken = None, userChannelId = ?ch\<rparr>"
  have p: "fst ?g = Inr ?page" by (rule sample_page)
  then have ok: "?g = (Inr ?page, snd ?g)" by (intro prod_eqI) simp_all
  have ch: "?ch = ''UC-me''" by (simp add: first_channel_id_def str_or_def)
  have mem: "?t \<in> set (comments ?page)" by simp
  have top: "topLevelComment ?t = topLevelComment ?t \<or> topLevelComment ?t \<in> set (replies ?t)" by simp
  have a: "authorChannelId (topLevelComment ?t) = ''UC-me''"
    by (simp add: to_CommentThread_def to_Comment_def str_or_def author_value_def
          sample_snippet_def first_channel_id_def opt_field_def Let_def)
  from canDelete_for_known_channel [OF ok mem top] ch a
  have "canDelete (topLevelComment ?t)" by simp
  with p ch a show ?thesis by simp
qed

end
